theory Spec2Isabelle
  imports Main
begin

section \<open>Data model of \<open>deob/deobfuscators.py\<close>\<close>

text \<open>\<open>class DeobFailTypes(Enum)\<close>.\<close>

datatype DeobFailTypes = NotValidDotnetFile | DotnetFileContentLengthMismatch

text \<open>\<open>@dataclass class ExceptionMapping\<close>.\<close>

record ExceptionMapping =
  regex_pattern :: string
  fail_type :: DeobFailTypes

text \<open>
  The three subclasses of \<open>Deobfuscator\<close>; each overrides \<open>deobfuscate\<close>, so the class of
  an instance decides how its invocation is built.
\<close>

datatype deob_class = Unscrambler | ConfuserExSSD | De4dotCex

text \<open>An instance of \<open>Deobfuscator\<close>: its class and the four class attributes.\<close>

record Deobfuscator =
  cls :: deob_class
  key :: string
  display_name :: string
  rel_path_to_exe :: string
  regex_exception_mappings :: "ExceptionMapping list"

text \<open>
  The exceptions the code can meet. Python's \<open>FileNotFoundError\<close>, \<open>NotADirectoryError\<close>
  and \<open>PermissionError\<close> are subclasses of \<open>OSError\<close> and are caught as such.
\<close>

datatype py_exn = OSError | TimeoutExpired | TypeError | OtherException

text \<open>\<open>subprocess.CompletedProcess\<close>, as far as the code reads it.\<close>

record CompletedProcess =
  returncode :: int
  stderr :: string
  stdout :: string

text \<open>
  The operating system and the standard library, taken as parameters over a world
  \<open>'w\<close>: \<open>subprocess.run(args, input, timeout)\<close> raises or completes and changes the
  world; \<open>os.path.exists\<close> and \<open>os.listdir\<close> read it; \<open>open_file p\<close> is
  \<open>open(p, "r+b")\<close>, which raises or gives a file; \<open>re_search p s\<close> is
  \<open>re.compile(p).search(s) is not None\<close>.
\<close>

record 'w platform =
  subprocess_run :: "string list \<Rightarrow> string option \<Rightarrow> nat \<Rightarrow> 'w \<Rightarrow> (py_exn + CompletedProcess) \<times> 'w"
  os_path_exists :: "string \<Rightarrow> 'w \<Rightarrow> bool"
  os_listdir :: "string \<Rightarrow> 'w \<Rightarrow> py_exn + string list"
  open_file :: "string \<Rightarrow> 'w \<Rightarrow> py_exn + unit"
  re_search :: "string \<Rightarrow> string \<Rightarrow> bool"

section \<open>\<open>os.path\<close> on POSIX\<close>

definition sep :: char where
  "sep = CHR ''/''"

definition extsep :: char where
  "extsep = CHR ''.''"

text \<open>\<open>p.rfind(c)\<close>: the index of the last \<open>c\<close>, or \<open>-1\<close>.\<close>

definition rfind :: "char \<Rightarrow> string \<Rightarrow> int" where
  "rfind c p =
     (if c \<in> set p then int (length p) - 1 - int (length (takeWhile (\<lambda>x. x \<noteq> c) (rev p)))
      else - 1)"

text \<open>\<open>os.path.basename\<close>: \<open>i = p.rfind('/') + 1; return p[i:]\<close>.\<close>

definition basename :: "string \<Rightarrow> string" where
  "basename p = drop (nat (rfind sep p + 1)) p"

text \<open>One round of the loop of \<open>os.path.join\<close>, and the loop.\<close>

definition join_step :: "string \<Rightarrow> string \<Rightarrow> string" where
  "join_step path b =
     (if (b \<noteq> [] \<and> hd b = sep) \<or> path = [] then b
      else if last path = sep then path @ b
      else path @ [sep] @ b)"

definition os_path_join :: "string \<Rightarrow> string list \<Rightarrow> string" where
  "os_path_join a p = foldl join_step a p"

text \<open>
  \<open>os.path.splitext\<close> (\<open>genericpath._splitext\<close>): the extension starts at the last dot
  after the last separator, unless only dots stand between the separator and it.
\<close>

definition splitext :: "string \<Rightarrow> string \<times> string" where
  "splitext p =
     (let sepIndex = rfind sep p; dotIndex = rfind extsep p in
      if dotIndex > sepIndex
           \<and> list_ex (\<lambda>i. p ! i \<noteq> extsep) [nat (sepIndex + 1) ..< nat dotIndex]
      then (take (nat dotIndex) p, drop (nat dotIndex) p)
      else (p, []))"

section \<open>The adapters\<close>

text \<open>A backslash followed by \<open>s\<close>, for the raw strings of the patterns.\<close>

definition esc :: "string \<Rightarrow> string" where
  "esc s = CHR 0x5C # s"

definition UnscramblerDeobfuscator :: Deobfuscator where
  "UnscramblerDeobfuscator =
     \<lparr> cls = Unscrambler,
       key = ''unscrambler'',
       display_name = ''unscrambler'',
       rel_path_to_exe = ''dotnet/Unscrambler/Unscrambler.dll'',
       regex_exception_mappings =
         [ \<lparr> regex_pattern = ''PE image does not contain a '' @ esc ''.NET metadata directory'',
             fail_type = NotValidDotnetFile \<rparr>,
           \<lparr> regex_pattern =
               ''Specified argument was out of the range of valid values'' @ esc ''. ''
                 @ esc ''(Parameter '' @ esc [CHR 0x27] @ ''fileOffset'' @ esc [CHR 0x27] @ esc '')'',
             fail_type = DotnetFileContentLengthMismatch \<rparr> ] \<rparr>"

definition ConfuserExStaticStringDecryptorDeobfuscator :: Deobfuscator where
  "ConfuserExStaticStringDecryptorDeobfuscator =
     \<lparr> cls = ConfuserExSSD,
       key = ''ConfuserExSSD'',
       display_name = ''ConfuserEx-Static-String-Decryptor'',
       rel_path_to_exe = ''mono/ConfuserEx_Static_String_decryptor/ConfuserEx String Decryptor.exe'',
       regex_exception_mappings =
         [ \<lparr> regex_pattern =
               ''Format of the executable '' @ esc ''('' @ esc ''.exe'' @ esc '') or library ''
                 @ esc ''('' @ esc ''.dll'' @ esc '') is invalid'' @ esc ''.'',
             fail_type = NotValidDotnetFile \<rparr>,
           \<lparr> regex_pattern = ''There'' @ [CHR 0x27] @ ''s not enough bytes left to read'',
             fail_type = DotnetFileContentLengthMismatch \<rparr> ] \<rparr>"

definition De4dotCexDeobfuscator :: Deobfuscator where
  "De4dotCexDeobfuscator =
     \<lparr> cls = De4dotCex,
       key = ''de4dotcex'',
       display_name = ''de4dot-cex'',
       rel_path_to_exe = ''mono/de4dot-cex/de4dot-x64.exe'',
       regex_exception_mappings =
         [ \<lparr> regex_pattern =
               ''Format of the executable '' @ esc ''('' @ esc ''.exe'' @ esc '') or library ''
                 @ esc ''('' @ esc ''.dll'' @ esc '') is invalid'' @ esc ''.'',
             fail_type = NotValidDotnetFile \<rparr> ] \<rparr>"

definition AVAILABLE_DEOBFUSCATORS :: "Deobfuscator list" where
  "AVAILABLE_DEOBFUSCATORS =
     [UnscramblerDeobfuscator, ConfuserExStaticStringDecryptorDeobfuscator, De4dotCexDeobfuscator]"

text \<open>
  \<open>Deobfuscator._get_path_to_cmd\<close>; \<open>module_dir\<close> is
  \<open>os.path.dirname(os.path.realpath(__file__))\<close>.
\<close>

definition get_path_to_cmd :: "string \<Rightarrow> Deobfuscator \<Rightarrow> string" where
  "get_path_to_cmd module_dir d = os_path_join module_dir [''bin'', rel_path_to_exe d]"

text \<open>
  The two \<open>except\<close> clauses of \<open>Deobfuscator._deobfuscate\<close>: what an exception raised in
  its \<open>try\<close> block becomes. Any other exception leaves the function.
\<close>

definition except_clauses :: "py_exn \<Rightarrow> py_exn + (string option \<times> string option)" where
  "except_clauses e =
     (case e of
        OSError \<Rightarrow> Inr (None, Some ''OSError occured while deobfuscating.'')
      | TimeoutExpired \<Rightarrow> Inr (None, Some ''Timed out while deobfuscating.'')
      | _ \<Rightarrow> Inl e)"

text \<open>
  \<open>Deobfuscator._deobfuscate\<close>. After a run with exit status zero and no output file,
  line 71 assigns \<open>err_msg\<close>, and line 72 is a statement of its own: a unary plus
  applied to an f-string. Its operand calls
  \<open>os.listdir(os.path.basename(expected_out_file_loc))\<close>, which may raise; if it
  returns, the unary plus on a \<open>str\<close> raises \<open>TypeError\<close>. The \<open>return None, err_msg\<close>
  of line 73 is therefore never reached.
\<close>

definition deobfuscate_run ::
  "'w platform \<Rightarrow> string list \<Rightarrow> string \<Rightarrow> string option \<Rightarrow> 'w
     \<Rightarrow> (py_exn + (string option \<times> string option)) \<times> 'w" where
  "deobfuscate_run env commandList expected_out_file_loc stdin w =
     (case subprocess_run env commandList stdin 60 w of
        (Inl e, w') \<Rightarrow> (except_clauses e, w')
      | (Inr res, w') \<Rightarrow>
          if returncode res \<noteq> 0 then
            (Inr (None,
                  Some (''An unexpected error occurred when deobfuscating. stderr '' @ stderr res
                          @ '' stdout: '' @ stdout res @ ''.'')), w')
          else if os_path_exists env expected_out_file_loc w' then
            (Inr (Some expected_out_file_loc, None), w')
          else
            (case os_listdir env (basename expected_out_file_loc) w' of
               Inl e \<Rightarrow> (except_clauses e, w')
             | Inr names \<Rightarrow> (except_clauses TypeError, w')))"

text \<open>The locals \<open>expected_out_file_loc\<close> and \<open>commands\<close> of the three \<open>deobfuscate\<close> methods.\<close>

fun expected_out_file_loc :: "deob_class \<Rightarrow> string \<Rightarrow> string" where
  "expected_out_file_loc De4dotCex in_file_path = in_file_path @ ''deob-cex''"
| "expected_out_file_loc ConfuserExSSD in_file_path = in_file_path @ ''Cleaned.exe''"
| "expected_out_file_loc Unscrambler in_file_path =
     (case splitext in_file_path of (prefix, postfix) \<Rightarrow> prefix @ ''_unscrambled'' @ postfix)"

definition commands :: "string \<Rightarrow> Deobfuscator \<Rightarrow> string \<Rightarrow> string list" where
  "commands module_dir d in_file_path =
     (case cls d of
        De4dotCex \<Rightarrow>
          [''mono'', get_path_to_cmd module_dir d, ''-f'', in_file_path, ''-o'',
           expected_out_file_loc De4dotCex in_file_path]
      | ConfuserExSSD \<Rightarrow> [''mono'', get_path_to_cmd module_dir d]
      | Unscrambler \<Rightarrow> [''dotnet'', get_path_to_cmd module_dir d, in_file_path])"

fun stdin_text :: "deob_class \<Rightarrow> string \<Rightarrow> string option" where
  "stdin_text De4dotCex in_file_path = None"
| "stdin_text ConfuserExSSD in_file_path = Some in_file_path"
| "stdin_text Unscrambler in_file_path = Some [CHR 0x0A]"

text \<open>\<open>deob.deobfuscate(in_file_path)\<close>, dispatched on the class of \<open>deob\<close>.\<close>

definition deobfuscate ::
  "'w platform \<Rightarrow> string \<Rightarrow> Deobfuscator \<Rightarrow> string \<Rightarrow> 'w
     \<Rightarrow> (py_exn + (string option \<times> string option)) \<times> 'w" where
  "deobfuscate env module_dir d in_file_path w =
     deobfuscate_run env (commands module_dir d in_file_path)
       (expected_out_file_loc (cls d) in_file_path) (stdin_text (cls d) in_file_path) w"

section \<open>\<open>AzulPluginDotnetDeob.execute\<close> (\<open>main.py\<close>)\<close>

text \<open>The plugin instance: its configured keys and the directory of the adapters' module.\<close>

record plugin =
  cfg_deobfuscators :: "string list"
  module_dir :: string

text \<open>The locals of \<open>execute\<close> that the loop over the adapters updates, and the world.\<close>

record 'w run_state =
  newest_file_path :: string
  successful_deobs :: "string list"
  failed_deobs :: "(Deobfuscator \<times> string) list"
  world :: 'w

text \<open>The f-string of line 80 in front of the adapter's error.\<close>

definition failed_prefix :: "Deobfuscator \<Rightarrow> string" where
  "failed_prefix d = ''Deobfuscator '' @ display_name d @ '' failed with error: ''"

text \<open>
  The body of the loop of lines 74 to 84. Concatenating \<open>None\<close> to a string raises
  \<open>TypeError\<close>.
\<close>

definition loop_body ::
  "'w platform \<Rightarrow> plugin \<Rightarrow> Deobfuscator \<Rightarrow> 'w run_state \<Rightarrow> py_exn + 'w run_state" where
  "loop_body env self d st =
     (if key d \<notin> set (cfg_deobfuscators self) then Inr st
      else
        (case deobfuscate env (module_dir self) d (newest_file_path st) (world st) of
           (Inl e, w') \<Rightarrow> Inl e
         | (Inr (None, error), w') \<Rightarrow>
             (case error of
                None \<Rightarrow> Inl TypeError
              | Some err \<Rightarrow>
                  Inr (st\<lparr> failed_deobs := failed_deobs st @ [(d, failed_prefix d @ err)],
                           world := w' \<rparr>))
         | (Inr (Some result_file_path, error), w') \<Rightarrow>
             Inr (st\<lparr> newest_file_path := result_file_path,
                      successful_deobs := successful_deobs st @ [display_name d],
                      world := w' \<rparr>)))"

fun run_deobs ::
  "'w platform \<Rightarrow> plugin \<Rightarrow> Deobfuscator list \<Rightarrow> 'w run_state \<Rightarrow> py_exn + 'w run_state" where
  "run_deobs env self [] st = Inr st"
| "run_deobs env self (d # ds) st =
     (case loop_body env self d st of
        Inl e \<Rightarrow> Inl e
      | Inr st' \<Rightarrow> run_deobs env self ds st')"

text \<open>The inner loop of lines 96 to 101, from the running \<open>error_type\<close> to the new one.\<close>

fun scan_mappings ::
  "'w platform \<Rightarrow> ExceptionMapping list \<Rightarrow> string \<Rightarrow> DeobFailTypes option \<Rightarrow> DeobFailTypes option" where
  "scan_mappings env [] msg error_type = error_type"
| "scan_mappings env (mapping # rest) msg error_type =
     (if re_search env (regex_pattern mapping) msg then Some (fail_type mapping)
      else scan_mappings env rest msg error_type)"

text \<open>The outer loop of lines 95 to 101.\<close>

fun scan_failed ::
  "'w platform \<Rightarrow> (Deobfuscator \<times> string) list \<Rightarrow> DeobFailTypes option \<Rightarrow> DeobFailTypes option" where
  "scan_failed env [] error_type = error_type"
| "scan_failed env ((deob, msg) # rest) error_type =
     scan_failed env rest (scan_mappings env (regex_exception_mappings deob) msg error_type)"

text \<open>
  What \<open>execute\<close> does for the job: it returns a \<open>State\<close> (label, failure name, message),
  or adds a child (\<open>deobfuscated_by\<close>, data file) and returns nothing, or flags the
  input as malformed and returns nothing.
\<close>

datatype Label = OPT_OUT | ERROR_EXCEPTION | COMPLETED_EMPTY

datatype job_outcome =
    State Label "string option" "string option"
  | add_child_with_data_file string string
  | is_malformed string

text \<open>
  What \<open>pefile.PE(in_file_path, fast_load=True)\<close> gives: \<open>PEFormatError\<close> (with the text of
  the traceback), or the \<open>VirtualAddress\<close> of each entry of
  \<open>OPTIONAL_HEADER.DATA_DIRECTORY\<close>.
\<close>

datatype pe_load = PEFormatError string | PE "nat list"

text \<open>\<open>",".join(successful_deobs)\<close>.\<close>

fun comma_join :: "string list \<Rightarrow> string" where
  "comma_join [] = []"
| "comma_join [x] = x"
| "comma_join (x # y # ys) = x @ '','' @ comma_join (y # ys)"

text \<open>The state of the locals at line 73, in the world \<open>w\<close> that holds the scratch copy.\<close>

definition initial_state :: "string \<Rightarrow> string \<Rightarrow> 'w \<Rightarrow> 'w run_state" where
  "initial_state cur_dir in_file_path w =
     \<lparr> newest_file_path = os_path_join cur_dir [basename in_file_path],
       successful_deobs = [],
       failed_deobs = [],
       world = w \<rparr>"

text \<open>
  Lines 86 to 114: what \<open>execute\<close> does with the locals after the loop. An exception
  of \<open>open(newest_file_path, "r+b")\<close> leaves \<open>execute\<close>.
\<close>

definition finish :: "'w platform \<Rightarrow> 'w run_state \<Rightarrow> py_exn + job_outcome" where
  "finish env st =
     (if length (successful_deobs st) > 0 then
        (case open_file env (newest_file_path st) (world st) of
           Inl e \<Rightarrow> Inl e
         | Inr f \<Rightarrow>
             Inr (add_child_with_data_file (comma_join (successful_deobs st))
                    (newest_file_path st)))
      else
        (let error_type = scan_failed env (failed_deobs st) None in
         if error_type = Some NotValidDotnetFile then
           Inr (State OPT_OUT None
                  (Some ''Deobfuscators detect file as not a valid dotnet file.''))
         else if error_type = Some DotnetFileContentLengthMismatch then
           Inr (is_malformed ''Dotnetfile is shorter than the header specifies.'')
         else
           Inr (State COMPLETED_EMPTY (Some ''no-deobfuscation-processed'')
                  (Some ''Could not run any of the deobfuscators.''))))"

text \<open>
  \<open>execute\<close>: \<open>pe\<close> is the result of loading the input with \<open>pefile\<close>, \<open>cur_dir\<close> the
  temporary directory, \<open>w\<close> the world after the input was copied into it.
\<close>

definition execute ::
  "'w platform \<Rightarrow> plugin \<Rightarrow> pe_load \<Rightarrow> string \<Rightarrow> string \<Rightarrow> 'w \<Rightarrow> py_exn + job_outcome" where
  "execute env self pe cur_dir in_file_path w =
     (case pe of
        PEFormatError tb \<Rightarrow> Inr (State ERROR_EXCEPTION (Some ''Error while parsing PE'') (Some tb))
      | PE DATA_DIRECTORY \<Rightarrow>
          if length DATA_DIRECTORY < 15 \<or> DATA_DIRECTORY ! 14 = 0 then
            Inr (State OPT_OUT None (Some ''Not a .NET assembly''))
          else
            (case run_deobs env self AVAILABLE_DEOBFUSCATORS (initial_state cur_dir in_file_path w) of
               Inl e \<Rightarrow> Inl e
             | Inr st \<Rightarrow> finish env st))"

section \<open>A subset of Python's regular expressions\<close>

text \<open>
  The patterns of the adapters are literal text with escaped punctuation. The subset
  modelled here has literal characters, a backslash before a character that is neither
  a letter nor a digit (that character, literally), the dot (any character but a
  newline) and the caret (the start of the string). \<open>re_parse\<close> is \<open>None\<close> on any other
  syntax, which is left out of the model.
\<close>

datatype re_atom = Lit char | AnyChar | Bol

definition is_alnum :: "char \<Rightarrow> bool" where
  "is_alnum c =
     (let n = (of_char c :: nat) in
      (48 \<le> n \<and> n \<le> 57) \<or> (65 \<le> n \<and> n \<le> 90) \<or> (97 \<le> n \<and> n \<le> 122))"

fun re_parse :: "string \<Rightarrow> re_atom list option" where
  "re_parse [] = Some []"
| "re_parse (c # rest) =
     (if c = CHR 0x5C then
        (case rest of
           [] \<Rightarrow> None
         | x # rest' \<Rightarrow> if is_alnum x then None else map_option (Cons (Lit x)) (re_parse rest'))
      else if c = CHR ''^'' then map_option (Cons Bol) (re_parse rest)
      else if c = CHR ''.'' then map_option (Cons AnyChar) (re_parse rest)
      else if c \<in> set ''$*+?{}[]()|'' then None
      else map_option (Cons (Lit c)) (re_parse rest))"

text \<open>
  \<open>re_match_here atoms at_start s\<close>: the atoms match a prefix of \<open>s\<close>; \<open>at_start\<close> says
  that \<open>s\<close> is the whole subject.
\<close>

fun re_match_here :: "re_atom list \<Rightarrow> bool \<Rightarrow> string \<Rightarrow> bool" where
  "re_match_here [] at_start s = True"
| "re_match_here (Bol # atoms) at_start s = (at_start \<and> re_match_here atoms at_start s)"
| "re_match_here (Lit c # atoms) at_start [] = False"
| "re_match_here (Lit c # atoms) at_start (x # xs) = (x = c \<and> re_match_here atoms False xs)"
| "re_match_here (AnyChar # atoms) at_start [] = False"
| "re_match_here (AnyChar # atoms) at_start (x # xs) =
     (x \<noteq> CHR 0x0A \<and> re_match_here atoms False xs)"

fun re_search_from :: "re_atom list \<Rightarrow> bool \<Rightarrow> string \<Rightarrow> bool" where
  "re_search_from atoms at_start [] = re_match_here atoms at_start []"
| "re_search_from atoms at_start (x # xs) =
     (re_match_here atoms at_start (x # xs) \<or> re_search_from atoms False xs)"

definition py_re_search :: "string \<Rightarrow> string \<Rightarrow> bool" where
  "py_re_search pattern s =
     (case re_parse pattern of None \<Rightarrow> False | Some atoms \<Rightarrow> re_search_from atoms True s)"

section \<open>The specification's notions\<close>

text \<open>
  \<open>classify(adapter, message)\<close> in the specification's words: the kind of the first
  pattern, in declared order, that matches anywhere in the message.
\<close>

definition classify :: "'w platform \<Rightarrow> Deobfuscator \<Rightarrow> string \<Rightarrow> DeobFailTypes option" where
  "classify env d msg =
     map_option fail_type
       (find (\<lambda>m. re_search env (regex_pattern m) msg) (regex_exception_mappings d))"

text \<open>The kinds of the failed tools that matched one of their own patterns, in order.\<close>

definition matched_kinds :: "'w platform \<Rightarrow> (Deobfuscator \<times> string) list \<Rightarrow> DeobFailTypes list" where
  "matched_kinds env failed = List.map_filter (\<lambda>(d, msg). classify env d msg) failed"

text \<open>
  The history of a run of the loop: each adapter that was invoked, with what its
  \<open>deobfuscate\<close> returned when the loop called it. The state each call starts from is
  the one the loop itself has reached.
\<close>

fun outcomes ::
  "'w platform \<Rightarrow> plugin \<Rightarrow> Deobfuscator list \<Rightarrow> 'w run_state
     \<Rightarrow> (Deobfuscator \<times> (string option \<times> string option)) list" where
  "outcomes env self [] st = []"
| "outcomes env self (d # ds) st =
     (if key d \<notin> set (cfg_deobfuscators self) then outcomes env self ds st
      else
        (case fst (deobfuscate env (module_dir self) d (newest_file_path st) (world st)) of
           Inl e \<Rightarrow> []
         | Inr r \<Rightarrow>
             (d, r) # (case loop_body env self d st of
                         Inl e \<Rightarrow> []
                       | Inr st' \<Rightarrow> outcomes env self ds st')))"

text \<open>The adapters of a history that succeeded, each with the path it returned.\<close>

definition successes ::
  "(Deobfuscator \<times> (string option \<times> string option)) list \<Rightarrow> (Deobfuscator \<times> string) list" where
  "successes os = List.map_filter (\<lambda>(d, r). map_option (Pair d) (fst r)) os"

text \<open>The adapters of a history that failed.\<close>

definition failures ::
  "(Deobfuscator \<times> (string option \<times> string option)) list \<Rightarrow> Deobfuscator list" where
  "failures os = map fst (filter (\<lambda>(d, r). fst r = None) os)"

text \<open>
  An output name made by putting a suffix before the extension of the input: the
  output starts with the input without its extension and ends with that extension.
\<close>

definition suffix_before_extension :: "string \<Rightarrow> string \<Rightarrow> bool" where
  "suffix_before_extension in_file_path out =
     (case splitext in_file_path of
        (prefix, postfix) \<Rightarrow>
          length prefix + length postfix \<le> length out
            \<and> take (length prefix) out = prefix
            \<and> drop (length out - length postfix) out = postfix)"

section \<open>A scripted platform\<close>

text \<open>
  A world is the list of the paths that exist. A script says, for each tool, what
  \<open>subprocess.run\<close> gives and whether the tool writes its output file; \<open>ls\<close> is
  \<open>os.listdir\<close>; a path that exists can be opened.
\<close>

definition tool_of :: "string list \<Rightarrow> deob_class" where
  "tool_of args =
     (case args of
        [] \<Rightarrow> De4dotCex
      | a # rest \<Rightarrow>
          if a = ''dotnet'' then Unscrambler
          else if length rest = 1 then ConfuserExSSD else De4dotCex)"

definition input_of :: "string list \<Rightarrow> string option \<Rightarrow> string" where
  "input_of args input =
     (case tool_of args of
        Unscrambler \<Rightarrow> (case args of [a, b, c] \<Rightarrow> c | _ \<Rightarrow> [])
      | ConfuserExSSD \<Rightarrow> (case input of Some s \<Rightarrow> s | None \<Rightarrow> [])
      | De4dotCex \<Rightarrow> (case args of a # b # c # d # rest \<Rightarrow> d | _ \<Rightarrow> []))"

definition scripted ::
  "(deob_class \<Rightarrow> (py_exn + CompletedProcess) \<times> bool) \<Rightarrow> (string \<Rightarrow> py_exn + string list)
     \<Rightarrow> string list platform" where
  "scripted script ls =
     \<lparr> subprocess_run =
         (\<lambda>args input timeout w.
            (fst (script (tool_of args)),
             if snd (script (tool_of args))
             then expected_out_file_loc (tool_of args) (input_of args input) # w
             else w)),
       os_path_exists = (\<lambda>p w. p \<in> set w),
       os_listdir = (\<lambda>p w. ls p),
       open_file = (\<lambda>p w. if p \<in> set w then Inr () else Inl OSError),
       re_search = py_re_search \<rparr>"

definition exits :: "int \<Rightarrow> string \<Rightarrow> string \<Rightarrow> py_exn + CompletedProcess" where
  "exits rc err out = Inr \<lparr> returncode = rc, stderr = err, stdout = out \<rparr>"

definition no_dir :: "string \<Rightarrow> py_exn + string list" where
  "no_dir p = Inl OSError"

definition default_plugin :: plugin where
  "default_plugin =
     \<lparr> cfg_deobfuscators = [''unscrambler'', ''ConfuserExSSD'', ''de4dotcex''],
       module_dir = ''/opt/deob'' \<rparr>"

definition dotnet_pe :: pe_load where
  "dotnet_pe = PE (replicate 14 0 @ [8200, 0])"

text \<open>Every tool exits with status zero and writes its output file.\<close>

definition all_succeed :: "deob_class \<Rightarrow> (py_exn + CompletedProcess) \<times> bool" where
  "all_succeed t = (exits 0 [] [], True)"

text \<open>
  Every tool exits with status one: Unscrambler reports a missing metadata directory,
  the string decryptor a short read, de4dot something else.
\<close>

definition all_fail :: "deob_class \<Rightarrow> (py_exn + CompletedProcess) \<times> bool" where
  "all_fail t =
     (case t of
        Unscrambler \<Rightarrow>
          (exits 1 ''PE image does not contain a .NET metadata directory'' [], False)
      | ConfuserExSSD \<Rightarrow>
          (exits 1 (''There'' @ [CHR 0x27] @ ''s not enough bytes left to read'') [], False)
      | De4dotCex \<Rightarrow> (exits 1 ''boom'' [], False))"

text \<open>Unscrambler runs out of time, the string decryptor fails, de4dot succeeds.\<close>

definition last_succeeds :: "deob_class \<Rightarrow> (py_exn + CompletedProcess) \<times> bool" where
  "last_succeeds t =
     (case t of
        Unscrambler \<Rightarrow> (Inl TimeoutExpired, False)
      | ConfuserExSSD \<Rightarrow> (exits 1 ''boom'' [], False)
      | De4dotCex \<Rightarrow> (exits 0 [] [], True))"

text \<open>Unscrambler exits with status one; the other two succeed.\<close>

definition first_fails :: "deob_class \<Rightarrow> (py_exn + CompletedProcess) \<times> bool" where
  "first_fails t =
     (case t of
        Unscrambler \<Rightarrow> (exits 1 ''boom'' [], False)
      | ConfuserExSSD \<Rightarrow> (exits 0 [] [], True)
      | De4dotCex \<Rightarrow> (exits 0 [] [], True))"

text \<open>Every tool exits with status zero and writes nothing.\<close>

definition silent :: "deob_class \<Rightarrow> (py_exn + CompletedProcess) \<times> bool" where
  "silent t = (exits 0 [] [], False)"

text \<open>The locals at line 73 for an input \<open>/in/sample.exe\<close> copied into \<open>/tmp/x\<close>.\<close>

definition sample_start :: "string list run_state" where
  "sample_start = initial_state ''/tmp/x'' ''/in/sample.exe'' []"

text \<open>The locals after the loop when Unscrambler fails and the other two succeed.\<close>

definition first_fails_end :: "string list run_state" where
  "first_fails_end =
     \<lparr> newest_file_path = ''/tmp/x/sample.exeCleaned.exedeob-cex'',
       successful_deobs = [''ConfuserEx-Static-String-Decryptor'', ''de4dot-cex''],
       failed_deobs =
         [(UnscramblerDeobfuscator,
           ''Deobfuscator unscrambler failed with error: An unexpected error occurred when deobfuscating. stderr boom stdout: .'')],
       world = [''/tmp/x/sample.exeCleaned.exedeob-cex'', ''/tmp/x/sample.exeCleaned.exe''] \<rparr>"

text \<open>The locals after the loop when every tool fails as in \<open>all_fail\<close>.\<close>

definition all_fail_end :: "string list run_state" where
  "all_fail_end =
     \<lparr> newest_file_path = ''/tmp/x/sample.exe'',
       successful_deobs = [],
       failed_deobs =
         [(UnscramblerDeobfuscator,
           ''Deobfuscator unscrambler failed with error: An unexpected error occurred when deobfuscating. stderr PE image does not contain a .NET metadata directory stdout: .''),
          (ConfuserExStaticStringDecryptorDeobfuscator,
           ''Deobfuscator ConfuserEx-Static-String-Decryptor failed with error: An unexpected error occurred when deobfuscating. stderr There''
             @ [CHR 0x27] @ ''s not enough bytes left to read stdout: .''),
          (De4dotCexDeobfuscator,
           ''Deobfuscator de4dot-cex failed with error: An unexpected error occurred when deobfuscating. stderr boom stdout: .'')],
       world = [] \<rparr>"

section \<open>Classification of failures\<close>

lemma scan_mappings_find:
  "scan_mappings env ms msg et =
     (case find (\<lambda>m. re_search env (regex_pattern m) msg) ms of
        None \<Rightarrow> et
      | Some m \<Rightarrow> Some (fail_type m))"
  by (induction ms) auto

lemma scan_mappings_classify:
  "scan_mappings env (regex_exception_mappings d) msg et =
     (case classify env d msg of None \<Rightarrow> et | Some k \<Rightarrow> Some k)"
  by (simp add: scan_mappings_find classify_def split: option.splits)

lemma matched_kinds_Nil: "matched_kinds env [] = []"
  by (simp add: matched_kinds_def)

lemma matched_kinds_Cons:
  "matched_kinds env ((d, msg) # rest) =
     (case classify env d msg of
        None \<Rightarrow> matched_kinds env rest
      | Some k \<Rightarrow> k # matched_kinds env rest)"
  by (simp add: matched_kinds_def split: option.splits)

lemma scan_failed_last:
  "scan_failed env failed et =
     (if matched_kinds env failed = [] then et else Some (last (matched_kinds env failed)))"
proof (induction failed arbitrary: et)
  case Nil
  show ?case by (simp add: matched_kinds_Nil)
next
  case (Cons a failed)
  obtain d msg where a: "a = (d, msg)" by (cases a)
  show ?case
    by (cases "classify env d msg")
       (simp_all add: a Cons.IH scan_mappings_classify matched_kinds_Cons)
qed

text \<open>
  C5. Per-tool classification is first-match-wins over the declared order of the
  patterns: for every adapter and every message, the inner loop of \<open>execute\<close>, started
  with no classification, gives the kind of the first pattern of the adapter that
  matches the message, and nothing if none matches.
\<close>

theorem per_tool_first_match_wins:
  "scan_mappings env (regex_exception_mappings d) msg None = classify env d msg
   \<and> (\<forall>k. classify env d msg = Some k \<longleftrightarrow>
          (\<exists>i < length (regex_exception_mappings d).
             re_search env (regex_pattern (regex_exception_mappings d ! i)) msg
             \<and> (\<forall>j < i. \<not> re_search env (regex_pattern (regex_exception_mappings d ! j)) msg)
             \<and> fail_type (regex_exception_mappings d ! i) = k))
   \<and> (classify env d msg = None \<longleftrightarrow>
        (\<forall>m \<in> set (regex_exception_mappings d). \<not> re_search env (regex_pattern m) msg))"
proof (intro conjI allI)
  show "scan_mappings env (regex_exception_mappings d) msg None = classify env d msg"
    by (simp add: scan_mappings_classify split: option.splits)
next
  fix k
  show "classify env d msg = Some k \<longleftrightarrow>
          (\<exists>i < length (regex_exception_mappings d).
             re_search env (regex_pattern (regex_exception_mappings d ! i)) msg
             \<and> (\<forall>j < i. \<not> re_search env (regex_pattern (regex_exception_mappings d ! j)) msg)
             \<and> fail_type (regex_exception_mappings d ! i) = k)"
    unfolding classify_def map_option_eq_Some find_Some_iff by blast
next
  show "classify env d msg = None \<longleftrightarrow>
        (\<forall>m \<in> set (regex_exception_mappings d). \<not> re_search env (regex_pattern m) msg)"
    by (auto simp: classify_def find_None_iff)
qed

text \<open>
  A message that both patterns of the string decryptor match is classified by the
  first of them.
\<close>

theorem per_tool_first_match_wins_witness:
  "re_search (scripted all_fail no_dir)
     (regex_pattern (regex_exception_mappings ConfuserExStaticStringDecryptorDeobfuscator ! 1))
     (''Format of the executable (.exe) or library (.dll) is invalid. There''
        @ [CHR 0x27] @ ''s not enough bytes left to read'')
   \<and> scan_mappings (scripted all_fail no_dir)
        (regex_exception_mappings ConfuserExStaticStringDecryptorDeobfuscator)
        (''Format of the executable (.exe) or library (.dll) is invalid. There''
           @ [CHR 0x27] @ ''s not enough bytes left to read'') None
      = Some NotValidDotnetFile"
proof -
  have second: "re_search (scripted all_fail no_dir)
     (regex_pattern (regex_exception_mappings ConfuserExStaticStringDecryptorDeobfuscator ! 1))
     (''Format of the executable (.exe) or library (.dll) is invalid. There''
        @ [CHR 0x27] @ ''s not enough bytes left to read'')"
    by code_simp
  have first: "classify (scripted all_fail no_dir) ConfuserExStaticStringDecryptorDeobfuscator
     (''Format of the executable (.exe) or library (.dll) is invalid. There''
        @ [CHR 0x27] @ ''s not enough bytes left to read'') = Some NotValidDotnetFile"
    by code_simp
  from per_tool_first_match_wins
         [of "scripted all_fail no_dir" ConfuserExStaticStringDecryptorDeobfuscator
             "''Format of the executable (.exe) or library (.dll) is invalid. There''
                @ [CHR 0x27] @ ''s not enough bytes left to read''"]
       first second
  show ?thesis by simp
qed

text \<open>
  C1. Over a run in which every adapter failed, the aggregate classification is
  last-match-wins in execution order: the outer loop of \<open>execute\<close> over the failed
  tools gives the kind of the last failed tool that matched one of its own patterns
  (each tool contributing its own first match), and nothing if no tool matched. With
  an earlier tool that matches \<open>NotValidDotnetFile\<close> and a later one that matches
  \<open>DotnetFileContentLengthMismatch\<close> the result is the later kind, and the other way
  round when the order is reversed. The result decides what \<open>execute\<close> reports.
\<close>

theorem aggregate_last_match_wins:
  "scan_failed env failed None =
     (if matched_kinds env failed = [] then None else Some (last (matched_kinds env failed)))
   \<and> (classify env a ma = Some NotValidDotnetFile
        \<and> classify env b mb = Some DotnetFileContentLengthMismatch
      \<longrightarrow> matched_kinds env [(a, ma), (b, mb)]
            = [NotValidDotnetFile, DotnetFileContentLengthMismatch]
          \<and> scan_failed env [(a, ma), (b, mb)] None = Some DotnetFileContentLengthMismatch
          \<and> scan_failed env [(b, mb), (a, ma)] None = Some NotValidDotnetFile)
   \<and> (successful_deobs st = [] \<longrightarrow>
        finish env st =
          Inr (if matched_kinds env (failed_deobs st) = [] then
                 State COMPLETED_EMPTY (Some ''no-deobfuscation-processed'')
                   (Some ''Could not run any of the deobfuscators.'')
               else case last (matched_kinds env (failed_deobs st)) of
                      NotValidDotnetFile \<Rightarrow>
                        State OPT_OUT None
                          (Some ''Deobfuscators detect file as not a valid dotnet file.'')
                    | DotnetFileContentLengthMismatch \<Rightarrow>
                        is_malformed ''Dotnetfile is shorter than the header specifies.''))"
proof (intro conjI impI)
  show "scan_failed env failed None =
     (if matched_kinds env failed = [] then None else Some (last (matched_kinds env failed)))"
    by (rule scan_failed_last)
next
  assume h: "classify env a ma = Some NotValidDotnetFile
        \<and> classify env b mb = Some DotnetFileContentLengthMismatch"
  then show "matched_kinds env [(a, ma), (b, mb)]
            = [NotValidDotnetFile, DotnetFileContentLengthMismatch]"
    by (simp add: matched_kinds_Cons matched_kinds_Nil)
  from h show "scan_failed env [(a, ma), (b, mb)] None = Some DotnetFileContentLengthMismatch"
    by (simp add: scan_mappings_classify)
  from h show "scan_failed env [(b, mb), (a, ma)] None = Some NotValidDotnetFile"
    by (simp add: scan_mappings_classify)
next
  assume "successful_deobs st = []"
  then show "finish env st =
          Inr (if matched_kinds env (failed_deobs st) = [] then
                 State COMPLETED_EMPTY (Some ''no-deobfuscation-processed'')
                   (Some ''Could not run any of the deobfuscators.'')
               else case last (matched_kinds env (failed_deobs st)) of
                      NotValidDotnetFile \<Rightarrow>
                        State OPT_OUT None
                          (Some ''Deobfuscators detect file as not a valid dotnet file.'')
                    | DotnetFileContentLengthMismatch \<Rightarrow>
                        is_malformed ''Dotnetfile is shorter than the header specifies.'')"
    by (simp add: finish_def scan_failed_last split: DeobFailTypes.splits)
qed

text \<open>
  Unscrambler fails on a missing metadata directory, then the string decryptor on a
  short read, then de4dot on something else: the run is classified by the string
  decryptor's failure, the last that matched, and the input is flagged as malformed.
\<close>

theorem aggregate_last_match_wins_witness:
  "run_deobs (scripted all_fail no_dir) default_plugin AVAILABLE_DEOBFUSCATORS sample_start
     = Inr all_fail_end
   \<and> matched_kinds (scripted all_fail no_dir) (failed_deobs all_fail_end)
       = [NotValidDotnetFile, DotnetFileContentLengthMismatch]
   \<and> scan_failed (scripted all_fail no_dir) (failed_deobs all_fail_end) None
       = Some DotnetFileContentLengthMismatch
   \<and> scan_failed (scripted all_fail no_dir) (take 2 (failed_deobs all_fail_end)) None
       = Some DotnetFileContentLengthMismatch
   \<and> scan_failed (scripted all_fail no_dir) (rev (take 2 (failed_deobs all_fail_end))) None
       = Some NotValidDotnetFile
   \<and> finish (scripted all_fail no_dir) all_fail_end
       = Inr (is_malformed ''Dotnetfile is shorter than the header specifies.'')"
proof -
  let ?env = "scripted all_fail no_dir"
  let ?mu = "''Deobfuscator unscrambler failed with error: An unexpected error occurred when deobfuscating. stderr PE image does not contain a .NET metadata directory stdout: .''"
  let ?mc = "''Deobfuscator ConfuserEx-Static-String-Decryptor failed with error: An unexpected error occurred when deobfuscating. stderr There''
             @ [CHR 0x27] @ ''s not enough bytes left to read stdout: .''"
  have run: "run_deobs ?env default_plugin AVAILABLE_DEOBFUSCATORS sample_start = Inr all_fail_end"
    by code_simp
  have kinds: "matched_kinds ?env (failed_deobs all_fail_end)
                 = [NotValidDotnetFile, DotnetFileContentLengthMismatch]"
    by code_simp
  have none: "successful_deobs all_fail_end = []"
    by code_simp
  have u: "classify ?env UnscramblerDeobfuscator ?mu = Some NotValidDotnetFile"
    by code_simp
  have c: "classify ?env ConfuserExStaticStringDecryptorDeobfuscator ?mc
             = Some DotnetFileContentLengthMismatch"
    by code_simp
  have two: "take 2 (failed_deobs all_fail_end)
               = [(UnscramblerDeobfuscator, ?mu), (ConfuserExStaticStringDecryptorDeobfuscator, ?mc)]"
    by code_simp
  from aggregate_last_match_wins
         [of ?env "failed_deobs all_fail_end" UnscramblerDeobfuscator ?mu
             ConfuserExStaticStringDecryptorDeobfuscator ?mc all_fail_end]
       run kinds none u c two
  show ?thesis by simp
qed

section \<open>The loop over the adapters\<close>


lemma loop_body_not_configured:
  "key d \<notin> set (cfg_deobfuscators self) \<Longrightarrow> loop_body env self d st = Inr st"
  by (simp add: loop_body_def)

lemma run_deobs_none_configured:
  "\<forall>d \<in> set ds. key d \<notin> set (cfg_deobfuscators self) \<Longrightarrow> run_deobs env self ds st = Inr st"
  by (induction ds) (simp_all add: loop_body_not_configured)

lemma outcomes_none_configured:
  "\<forall>d \<in> set ds. key d \<notin> set (cfg_deobfuscators self) \<Longrightarrow> outcomes env self ds st = []"
  by (induction ds) simp_all

text \<open>
  C6. If the configuration selects no adapter, the run invokes none (the loop leaves
  its state and the world as they were, and the history is empty), the list of
  failed tools is empty, no classification is found, and \<open>execute\<close>, for an input that
  passes the check of the container, reports the generic empty completion, which is
  neither the opt-out nor the malformed flag.
\<close>

theorem empty_configuration_completes_empty:
  assumes "cfg_deobfuscators self = []"
  shows "run_deobs env self ds st = Inr st
         \<and> outcomes env self ds st = []
         \<and> run_deobs env self AVAILABLE_DEOBFUSCATORS (initial_state cur_dir in_file_path w)
             = Inr (initial_state cur_dir in_file_path w)
         \<and> failed_deobs (initial_state cur_dir in_file_path w) = []
         \<and> world (initial_state cur_dir in_file_path w) = w
         \<and> scan_failed env (failed_deobs (initial_state cur_dir in_file_path w)) None = None
         \<and> (15 \<le> length DATA_DIRECTORY \<and> DATA_DIRECTORY ! 14 \<noteq> 0 \<longrightarrow>
              execute env self (PE DATA_DIRECTORY) cur_dir in_file_path w
                = Inr (State COMPLETED_EMPTY (Some ''no-deobfuscation-processed'')
                         (Some ''Could not run any of the deobfuscators.'')))"
proof -
  have none: "\<And>xs. \<forall>d \<in> set xs. key d \<notin> set (cfg_deobfuscators self)"
    using assms by simp
  have run: "\<And>xs s. run_deobs env self xs s = Inr s"
    by (rule run_deobs_none_configured) (rule none)
  have hist: "outcomes env self ds st = []"
    by (rule outcomes_none_configured) (rule none)
  have fin: "finish env (initial_state cur_dir in_file_path w)
               = Inr (State COMPLETED_EMPTY (Some ''no-deobfuscation-processed'')
                         (Some ''Could not run any of the deobfuscators.''))"
    by (simp add: finish_def initial_state_def)
  show ?thesis
    using run hist fin by (simp add: execute_def initial_state_def)
qed

text \<open>With no key configured, tools that would all succeed are never run.\<close>

theorem empty_configuration_completes_empty_witness:
  "execute (scripted all_succeed no_dir) (default_plugin\<lparr> cfg_deobfuscators := [] \<rparr>) dotnet_pe
     ''/tmp/x'' ''/in/sample.exe'' []
   = Inr (State COMPLETED_EMPTY (Some ''no-deobfuscation-processed'')
            (Some ''Could not run any of the deobfuscators.''))"
proof -
  have cfg: "cfg_deobfuscators (default_plugin\<lparr> cfg_deobfuscators := [] \<rparr>) = []"
    by simp
  have pe: "dotnet_pe = PE (replicate 14 0 @ [8200, 0])"
    by (simp add: dotnet_pe_def)
  have dd: "15 \<le> length (replicate 14 (0::nat) @ [8200, 0])
            \<and> (replicate 14 (0::nat) @ [8200, 0]) ! 14 \<noteq> 0"
    by (simp add: nth_append)
  from empty_configuration_completes_empty
         [OF cfg, of "scripted all_succeed no_dir" "[]"
            "initial_state ''/tmp/x'' ''/in/sample.exe'' []" "''/tmp/x''" "''/in/sample.exe''" "[]"
            "replicate 14 0 @ [8200, 0]"]
       dd pe
  show ?thesis by simp
qed

section \<open>Failures of one invocation\<close>


lemma deobfuscate_run_timeout:
  "subprocess_run env commandList stdin 60 w = (Inl TimeoutExpired, w') \<Longrightarrow>
   deobfuscate_run env commandList out stdin w
     = (Inr (None, Some ''Timed out while deobfuscating.''), w')"
  by (simp add: deobfuscate_run_def except_clauses_def)

lemma loop_body_failure:
  "key d \<in> set (cfg_deobfuscators self) \<Longrightarrow>
   deobfuscate env (module_dir self) d (newest_file_path st) (world st)
     = (Inr (None, Some err), w') \<Longrightarrow>
   loop_body env self d st
     = Inr (st\<lparr> failed_deobs := failed_deobs st @ [(d, failed_prefix d @ err)], world := w' \<rparr>)"
  by (simp add: loop_body_def)

lemma loop_body_success:
  "key d \<in> set (cfg_deobfuscators self) \<Longrightarrow>
   deobfuscate env (module_dir self) d (newest_file_path st) (world st)
     = (Inr (Some p, e), w') \<Longrightarrow>
   loop_body env self d st
     = Inr (st\<lparr> newest_file_path := p,
               successful_deobs := successful_deobs st @ [display_name d], world := w' \<rparr>)"
  by (simp add: loop_body_def)

text \<open>
  C8. When the external process of an adapter does not exit within the timeout of 60
  seconds that \<open>_deobfuscate\<close> passes to \<open>subprocess.run\<close>, the invocation returns a
  failure with the message that it timed out; the loop records the failure and goes
  on with the next adapter from a state whose candidate path and list of successes
  are unchanged.
\<close>

theorem timeout_fails_locally:
  assumes "subprocess_run env (commands (module_dir self) d (newest_file_path st))
             (stdin_text (cls d) (newest_file_path st)) 60 (world st)
           = (Inl TimeoutExpired, w')"
  shows "deobfuscate env (module_dir self) d (newest_file_path st) (world st)
           = (Inr (None, Some ''Timed out while deobfuscating.''), w')
         \<and> (key d \<in> set (cfg_deobfuscators self) \<longrightarrow>
              (\<exists>st'. loop_body env self d st = Inr st'
                 \<and> run_deobs env self (d # ds) st = run_deobs env self ds st'
                 \<and> newest_file_path st' = newest_file_path st
                 \<and> successful_deobs st' = successful_deobs st
                 \<and> failed_deobs st'
                     = failed_deobs st
                         @ [(d, ''Deobfuscator '' @ display_name d
                                  @ '' failed with error: Timed out while deobfuscating.'')]
                 \<and> world st' = w'))"
proof -
  have r: "deobfuscate env (module_dir self) d (newest_file_path st) (world st)
           = (Inr (None, Some ''Timed out while deobfuscating.''), w')"
    unfolding deobfuscate_def by (rule deobfuscate_run_timeout) (rule assms)
  have "loop_body env self d st
          = Inr (st\<lparr> failed_deobs := failed_deobs st
                        @ [(d, failed_prefix d @ ''Timed out while deobfuscating.'')],
                    world := w' \<rparr>)"
    if "key d \<in> set (cfg_deobfuscators self)"
    using that r by (rule loop_body_failure)
  then show ?thesis
    using r by (simp add: failed_prefix_def)
qed

text \<open>
  Unscrambler times out and the string decryptor fails: de4dot is still run, on the
  scratch copy, and succeeds.
\<close>

theorem timeout_fails_locally_witness:
  "run_deobs (scripted last_succeeds no_dir) default_plugin AVAILABLE_DEOBFUSCATORS
     (initial_state ''/tmp/x'' ''/in/sample.exe'' [])
   = Inr \<lparr> newest_file_path = ''/tmp/x/sample.exedeob-cex'',
           successful_deobs = [''de4dot-cex''],
           failed_deobs =
             [(UnscramblerDeobfuscator,
               ''Deobfuscator unscrambler failed with error: Timed out while deobfuscating.''),
              (ConfuserExStaticStringDecryptorDeobfuscator,
               ''Deobfuscator ConfuserEx-Static-String-Decryptor failed with error: An unexpected error occurred when deobfuscating. stderr boom stdout: .'')],
           world = [''/tmp/x/sample.exedeob-cex''] \<rparr>"
proof -
  let ?env = "scripted last_succeeds no_dir"
  let ?st = "initial_state ''/tmp/x'' ''/in/sample.exe'' ([] :: string list)"
  let ?rest = "[ConfuserExStaticStringDecryptorDeobfuscator, De4dotCexDeobfuscator]"
  have h: "subprocess_run ?env
             (commands (module_dir default_plugin) UnscramblerDeobfuscator (newest_file_path ?st))
             (stdin_text (cls UnscramblerDeobfuscator) (newest_file_path ?st)) 60 (world ?st)
           = (Inl TimeoutExpired, [])"
    by code_simp
  have k: "key UnscramblerDeobfuscator \<in> set (cfg_deobfuscators default_plugin)"
    by code_simp
  from timeout_fails_locally [OF h, of ?rest] k
  obtain st' where
    s1: "run_deobs ?env default_plugin (UnscramblerDeobfuscator # ?rest) ?st
           = run_deobs ?env default_plugin ?rest st'"
    and s2: "newest_file_path st' = newest_file_path ?st"
    and s3: "successful_deobs st' = successful_deobs ?st"
    and s4: "failed_deobs st'
               = failed_deobs ?st
                   @ [(UnscramblerDeobfuscator,
                       ''Deobfuscator '' @ display_name UnscramblerDeobfuscator
                         @ '' failed with error: Timed out while deobfuscating.'')]"
    and s5: "world st' = []"
    by blast
  have st': "st' = \<lparr> newest_file_path = ''/tmp/x/sample.exe'', successful_deobs = [],
                     failed_deobs = [(UnscramblerDeobfuscator,
                        ''Deobfuscator unscrambler failed with error: Timed out while deobfuscating.'')],
                     world = [] \<rparr>"
  proof -
    have a: "newest_file_path ?st = ''/tmp/x/sample.exe''" by code_simp
    have b: "successful_deobs ?st = []" by code_simp
    have c: "failed_deobs ?st = []" by code_simp
    have d: "display_name UnscramblerDeobfuscator = ''unscrambler''" by code_simp
    show ?thesis using s2 s3 s4 s5 a b c d by (cases st') simp
  qed
  have rest: "run_deobs ?env default_plugin ?rest
                \<lparr> newest_file_path = ''/tmp/x/sample.exe'', successful_deobs = [],
                  failed_deobs = [(UnscramblerDeobfuscator,
                     ''Deobfuscator unscrambler failed with error: Timed out while deobfuscating.'')],
                  world = [] \<rparr>
              = Inr \<lparr> newest_file_path = ''/tmp/x/sample.exedeob-cex'',
           successful_deobs = [''de4dot-cex''],
           failed_deobs =
             [(UnscramblerDeobfuscator,
               ''Deobfuscator unscrambler failed with error: Timed out while deobfuscating.''),
              (ConfuserExStaticStringDecryptorDeobfuscator,
               ''Deobfuscator ConfuserEx-Static-String-Decryptor failed with error: An unexpected error occurred when deobfuscating. stderr boom stdout: .'')],
           world = [''/tmp/x/sample.exedeob-cex''] \<rparr>"
    by code_simp
  show ?thesis
    using s1 st' rest by (simp add: AVAILABLE_DEOBFUSCATORS_def)
qed

text \<open>
  C3. An invocation whose process exits with status zero without producing the
  expected output file should return a failure whose message says that the expected
  path was not produced. Here de4dot exits with status zero and writes nothing, and
  no directory is named like the expected file: the listing that line 72 asks for
  raises \<open>OSError\<close>, and the invocation returns the message of the \<open>except OSError\<close>
  clause, not the message that line 71 has built. The result is a failure, not a
  success.
\<close>

theorem missing_output_reported_as_oserror:
  "subprocess_run (scripted silent no_dir)
     (commands ''/opt/deob'' De4dotCexDeobfuscator ''/tmp/x/sample.exe'')
     (stdin_text De4dotCex ''/tmp/x/sample.exe'') 60 []
     = (Inr \<lparr> returncode = 0, stderr = [], stdout = [] \<rparr>, [])
   \<and> \<not> os_path_exists (scripted silent no_dir) ''/tmp/x/sample.exedeob-cex'' []
   \<and> os_listdir (scripted silent no_dir) (basename ''/tmp/x/sample.exedeob-cex'') []
       = Inl OSError
   \<and> deobfuscate (scripted silent no_dir) ''/opt/deob'' De4dotCexDeobfuscator
       ''/tmp/x/sample.exe'' []
       = (Inr (None, Some ''OSError occured while deobfuscating.''), [])"
  by code_simp

text \<open>
  C9. Every failure of one invocation should come back as a result with exactly one
  side set, never as an exception. Here de4dot exits with status zero and writes
  nothing, and the listing that line 72 asks for succeeds: the unary plus of line 72
  raises \<open>TypeError\<close>, which no \<open>except\<close> clause catches, so the exception leaves
  \<open>_deobfuscate\<close> and \<open>execute\<close>.
\<close>

theorem missing_output_raises_type_error:
  "subprocess_run (scripted silent (\<lambda>p. Inr []))
     (commands ''/opt/deob'' De4dotCexDeobfuscator ''/tmp/x/sample.exe'')
     (stdin_text De4dotCex ''/tmp/x/sample.exe'') 60 []
     = (Inr \<lparr> returncode = 0, stderr = [], stdout = [] \<rparr>, [])
   \<and> \<not> os_path_exists (scripted silent (\<lambda>p. Inr [])) ''/tmp/x/sample.exedeob-cex'' []
   \<and> os_listdir (scripted silent (\<lambda>p. Inr [])) (basename ''/tmp/x/sample.exedeob-cex'') []
       = Inr []
   \<and> deobfuscate (scripted silent (\<lambda>p. Inr [])) ''/opt/deob'' De4dotCexDeobfuscator
       ''/tmp/x/sample.exe'' []
       = (Inl TypeError, [])
   \<and> execute (scripted silent (\<lambda>p. Inr [])) default_plugin dotnet_pe ''/tmp/x''
       ''/in/sample.exe'' []
       = Inl TypeError"
  by code_simp

section \<open>The order of execution\<close>

text \<open>
  C2. The configured adapters should run in the order of the configured list. Here
  the configuration names de4dot before Unscrambler and both succeed: Unscrambler runs
  first, on the scratch copy, and de4dot runs on its output, which is the order of
  \<open>AVAILABLE_DEOBFUSCATORS\<close>. The string decryptor, which is not configured, is not
  run.
\<close>

theorem execution_follows_registration_order:
  "run_deobs (scripted all_succeed no_dir)
     \<lparr> cfg_deobfuscators = [''de4dotcex'', ''unscrambler''], module_dir = ''/opt/deob'' \<rparr>
     AVAILABLE_DEOBFUSCATORS (initial_state ''/tmp/x'' ''/in/sample.exe'' [])
   = Inr \<lparr> newest_file_path = ''/tmp/x/sample_unscrambled.exedeob-cex'',
           successful_deobs = [''unscrambler'', ''de4dot-cex''],
           failed_deobs = [],
           world = [''/tmp/x/sample_unscrambled.exedeob-cex'', ''/tmp/x/sample_unscrambled.exe''] \<rparr>"
  by code_simp

section \<open>The output name of the string decryptor\<close>

text \<open>
  C7, as stated: the adapter that passes the input path on standard input, with no
  file argument, would expect its output under a name with a fixed suffix put before
  the extension of the input. For an input ending in \<open>.dll\<close> the expected name is
  the whole input name followed by \<open>Cleaned.exe\<close>; it does not end with the
  extension of the input.
\<close>

theorem string_decryptor_output_counterexample:
  "stdin_text (cls ConfuserExStaticStringDecryptorDeobfuscator) ''/tmp/sample.dll''
     = Some ''/tmp/sample.dll''
   \<and> commands ''/opt/deob'' ConfuserExStaticStringDecryptorDeobfuscator ''/tmp/sample.dll''
       = [''mono'',
          ''/opt/deob/bin/mono/ConfuserEx_Static_String_decryptor/ConfuserEx String Decryptor.exe'']
   \<and> splitext ''/tmp/sample.dll'' = (''/tmp/sample'', ''.dll'')
   \<and> expected_out_file_loc (cls ConfuserExStaticStringDecryptorDeobfuscator) ''/tmp/sample.dll''
       = ''/tmp/sample.dllCleaned.exe''
   \<and> \<not> suffix_before_extension ''/tmp/sample.dll''
         (expected_out_file_loc (cls ConfuserExStaticStringDecryptorDeobfuscator)
            ''/tmp/sample.dll'')"
  by code_simp
lemma deobfuscate_run_success:
  "deobfuscate_run env commandList out stdin w = (Inr (Some p, e), w') \<Longrightarrow>
   p = out \<and> e = None \<and> os_path_exists env out w'
   \<and> (\<exists>res. subprocess_run env commandList stdin 60 w = (Inr res, w') \<and> returncode res = 0)"
  by (auto simp: deobfuscate_run_def except_clauses_def
           split: prod.splits sum.splits if_splits py_exn.splits)

text \<open>
  C7, amended. The adapter that passes the input path on standard input, with a
  command line of the interpreter and the executable only, expects its output at the
  input path with \<open>Cleaned.exe\<close> appended after the whole path, its extension
  included; when its invocation succeeds, that is the path it returns, and the file
  exists.
\<close>

theorem string_decryptor_output_after_extension:
  assumes "cls d = ConfuserExSSD"
  shows "stdin_text (cls d) in_file_path = Some in_file_path
         \<and> commands md d in_file_path = [''mono'', get_path_to_cmd md d]
         \<and> expected_out_file_loc (cls d) in_file_path = in_file_path @ ''Cleaned.exe''
         \<and> (\<forall>out e w'. deobfuscate env md d in_file_path w = (Inr (Some out, e), w')
               \<longrightarrow> out = in_file_path @ ''Cleaned.exe'' \<and> os_path_exists env out w'
                   \<and> (\<exists>res. subprocess_run env [''mono'', get_path_to_cmd md d]
                                (Some in_file_path) 60 w = (Inr res, w')
                             \<and> returncode res = 0))"
proof (intro conjI allI impI)
  show "stdin_text (cls d) in_file_path = Some in_file_path"
    by (simp add: assms)
  show c: "commands md d in_file_path = [''mono'', get_path_to_cmd md d]"
    by (simp add: commands_def assms)
  show x: "expected_out_file_loc (cls d) in_file_path = in_file_path @ ''Cleaned.exe''"
    by (simp add: assms)
  fix out e w'
  assume "deobfuscate env md d in_file_path w = (Inr (Some out, e), w')"
  then have r: "deobfuscate_run env [''mono'', get_path_to_cmd md d]
                  (in_file_path @ ''Cleaned.exe'') (Some in_file_path) w
                = (Inr (Some out, e), w')"
    by (simp add: deobfuscate_def c assms)
  from deobfuscate_run_success [OF r]
  show "out = in_file_path @ ''Cleaned.exe''"
    and "os_path_exists env out w'"
    and "\<exists>res. subprocess_run env [''mono'', get_path_to_cmd md d] (Some in_file_path) 60 w
                 = (Inr res, w') \<and> returncode res = 0"
    by simp_all
qed

text \<open>The string decryptor, run on a library, returns the name with the suffix at the end.\<close>

theorem string_decryptor_output_after_extension_witness:
  "deobfuscate (scripted all_succeed no_dir) ''/opt/deob''
     ConfuserExStaticStringDecryptorDeobfuscator ''/tmp/sample.dll'' []
     = (Inr (Some ''/tmp/sample.dllCleaned.exe'', None), [''/tmp/sample.dllCleaned.exe''])
   \<and> expected_out_file_loc (cls ConfuserExStaticStringDecryptorDeobfuscator) ''/tmp/sample.dll''
       = ''/tmp/sample.dll'' @ ''Cleaned.exe''"
proof -
  have c: "cls ConfuserExStaticStringDecryptorDeobfuscator = ConfuserExSSD"
    by code_simp
  have r: "deobfuscate (scripted all_succeed no_dir) ''/opt/deob''
     ConfuserExStaticStringDecryptorDeobfuscator ''/tmp/sample.dll'' []
     = (Inr (Some ''/tmp/sample.dllCleaned.exe'', None), [''/tmp/sample.dllCleaned.exe''])"
    by code_simp
  from string_decryptor_output_after_extension [OF c, of "''/tmp/sample.dll''" "''/opt/deob''" "scripted all_succeed no_dir" "[]"] r
  show ?thesis by simp
qed

section \<open>The candidate path and the trail of successes\<close>


lemma successes_Nil: "successes [] = []"
  by (simp add: successes_def)

lemma successes_Cons:
  "successes ((d, r) # os) =
     (case fst r of None \<Rightarrow> successes os | Some p \<Rightarrow> (d, p) # successes os)"
  by (simp add: successes_def split: option.splits)

lemma failures_Nil: "failures [] = []"
  by (simp add: failures_def)

lemma failures_Cons:
  "failures ((d, r) # os) = (if fst r = None then d # failures os else failures os)"
  by (simp add: failures_def)

lemma loop_body_cases:
  assumes "loop_body env self d st = Inr st'" and "key d \<in> set (cfg_deobfuscators self)"
  obtains (failed) err w' where
      "deobfuscate env (module_dir self) d (newest_file_path st) (world st)
         = (Inr (None, Some err), w')"
      "st' = st\<lparr> failed_deobs := failed_deobs st @ [(d, failed_prefix d @ err)], world := w' \<rparr>"
    | (succeeded) p e w' where
      "deobfuscate env (module_dir self) d (newest_file_path st) (world st)
         = (Inr (Some p, e), w')"
      "st' = st\<lparr> newest_file_path := p,
                 successful_deobs := successful_deobs st @ [display_name d], world := w' \<rparr>"
  using assms
  by (auto simp: loop_body_def split: prod.splits sum.splits option.splits)

lemma run_deobs_history:
  "run_deobs env self ds st0 = Inr st \<Longrightarrow>
   successful_deobs st
     = successful_deobs st0 @ map (display_name \<circ> fst) (successes (outcomes env self ds st0))
   \<and> newest_file_path st
       = last (newest_file_path st0 # map snd (successes (outcomes env self ds st0)))
   \<and> map fst (failed_deobs st)
       = map fst (failed_deobs st0) @ failures (outcomes env self ds st0)"
proof (induction ds arbitrary: st0)
  case Nil
  then show ?case by (simp add: successes_Nil failures_Nil)
next
  case (Cons d ds)
  show ?case
  proof (cases "key d \<in> set (cfg_deobfuscators self)")
    case False
    then have "loop_body env self d st0 = Inr st0"
      by (simp add: loop_body_def)
    with Cons.prems have "run_deobs env self ds st0 = Inr st" by simp
    from Cons.IH [OF this] False show ?thesis by simp
  next
    case True
    from Cons.prems obtain st1 where
      body: "loop_body env self d st0 = Inr st1" and rest: "run_deobs env self ds st1 = Inr st"
      by (auto split: sum.splits)
    note ih = Cons.IH [OF rest]
    from body True show ?thesis
    proof (cases rule: loop_body_cases)
      case (failed err w')
      then have os: "outcomes env self (d # ds) st0 = (d, (None, Some err)) # outcomes env self ds st1"
        using True body by simp
      show ?thesis
        unfolding os using ih by (simp add: successes_Cons failures_Cons failed(2))
    next
      case (succeeded p e w')
      then have os: "outcomes env self (d # ds) st0 = (d, (Some p, e)) # outcomes env self ds st1"
        using True body by simp
      show ?thesis
        unfolding os using ih by (simp add: successes_Cons failures_Cons succeeded(2))
    qed
  qed
qed

lemma run_deobs_append:
  "run_deobs env self (ds1 @ ds2) st =
     (case run_deobs env self ds1 st of
        Inl e \<Rightarrow> Inl e
      | Inr st1 \<Rightarrow> run_deobs env self ds2 st1)"
  by (induction ds1 arbitrary: st) (simp_all split: sum.splits)

lemma outcomes_names:
  "display_name ` fst ` set (outcomes env self ds st) \<subseteq> display_name ` set ds"
proof (induction ds arbitrary: st)
  case Nil
  show ?case by simp
next
  case (Cons d ds)
  show ?case
    using Cons.IH
    by (auto split: sum.splits simp del: image_image)
qed

lemma outcomes_distinct:
  "distinct (map display_name ds) \<Longrightarrow>
   distinct (map (display_name \<circ> fst) (outcomes env self ds st))"
proof (induction ds arbitrary: st)
  case Nil
  show ?case by simp
next
  case (Cons d ds)
  have new: "display_name d \<notin> display_name ` fst ` set (outcomes env self ds s)" for s
    using Cons.prems outcomes_names [of env self ds s] by auto
  show ?case
    using Cons.IH Cons.prems new
    by (auto split: sum.splits simp: image_image)
qed

lemma successes_member:
  "(d, p) \<in> set (successes os) \<Longrightarrow> \<exists>e. (d, (Some p, e)) \<in> set os"
  by (induction os) (fastforce simp: successes_Nil successes_Cons split: option.splits)+

lemma failures_member:
  "d \<in> set (failures os) \<Longrightarrow> \<exists>e. (d, (None, e)) \<in> set os"
  by (induction os) (fastforce simp: failures_Nil failures_Cons split: if_splits)+

lemma failed_name_not_successful:
  assumes dist: "distinct (map (display_name \<circ> fst) os)" and f: "d \<in> set (failures os)"
  shows "display_name d \<notin> set (map (display_name \<circ> fst) (successes os))"
proof
  assume "display_name d \<in> set (map (display_name \<circ> fst) (successes os))"
  then obtain d' p where s: "(d', p) \<in> set (successes os)" and n: "display_name d' = display_name d"
    by auto
  from successes_member [OF s] obtain e' where m': "(d', (Some p, e')) \<in> set os" by blast
  from failures_member [OF f] obtain e where m: "(d, (None, e)) \<in> set os" by blast
  from dist have "inj_on (display_name \<circ> fst) (set os)"
    by (simp add: distinct_map)
  from inj_onD [OF this _ m' m] n have "(d', (Some p, e')) = (d, (None, e))"
    by simp
  then show False by simp
qed

text \<open>
  C4. For every run of the loop in which at least one adapter succeeded: the list of
  successes is not empty; the candidate path at the end is the path returned by the
  last adapter that succeeded, and it is the path that \<open>execute\<close> opens and hands
  over with the child; the list of successes holds the display names of the adapters
  that succeeded, in the order they ran, and (the display names of the adapters being
  distinct) no name of an adapter that failed; at every point of the run the
  candidate path is the path returned by the last success so far, or the path the run
  started with if there is none; and an adapter that fails leaves the candidate path
  and the list of successes as they were.
\<close>

theorem candidate_path_and_success_trail:
  assumes run: "run_deobs env self ds st0 = Inr st"
    and init: "successful_deobs st0 = []"
    and some: "successes (outcomes env self ds st0) \<noteq> []"
  shows "successful_deobs st \<noteq> []
         \<and> newest_file_path st = snd (last (successes (outcomes env self ds st0)))
         \<and> successful_deobs st = map (display_name \<circ> fst) (successes (outcomes env self ds st0))
         \<and> (distinct (map display_name ds) \<longrightarrow>
              (\<forall>d \<in> set (failures (outcomes env self ds st0)).
                 display_name d \<notin> set (successful_deobs st)))
         \<and> (\<forall>ds1 ds2. ds = ds1 @ ds2 \<longrightarrow>
              (\<exists>st1. run_deobs env self ds1 st0 = Inr st1
                 \<and> run_deobs env self ds2 st1 = Inr st
                 \<and> newest_file_path st1
                     = (if successes (outcomes env self ds1 st0) = [] then newest_file_path st0
                        else snd (last (successes (outcomes env self ds1 st0))))))
         \<and> (\<forall>d st1 err w'.
               key d \<in> set (cfg_deobfuscators self)
               \<and> deobfuscate env (module_dir self) d (newest_file_path st1) (world st1)
                   = (Inr (None, Some err), w')
               \<longrightarrow> (\<exists>st2. loop_body env self d st1 = Inr st2
                      \<and> newest_file_path st2 = newest_file_path st1
                      \<and> successful_deobs st2 = successful_deobs st1))
         \<and> (\<forall>d st1 p e w'.
               key d \<in> set (cfg_deobfuscators self)
               \<and> deobfuscate env (module_dir self) d (newest_file_path st1) (world st1)
                   = (Inr (Some p, e), w')
               \<longrightarrow> (\<exists>st2. loop_body env self d st1 = Inr st2
                      \<and> newest_file_path st2 = p
                      \<and> successful_deobs st2 = successful_deobs st1 @ [display_name d]))
         \<and> finish env st
             = (case open_file env (snd (last (successes (outcomes env self ds st0)))) (world st) of
                  Inl e \<Rightarrow> Inl e
                | Inr f \<Rightarrow>
                    Inr (add_child_with_data_file
                           (comma_join (map (display_name \<circ> fst)
                                          (successes (outcomes env self ds st0))))
                           (snd (last (successes (outcomes env self ds st0))))))"
proof -
  note h = run_deobs_history [OF run]
  from h init have names:
    "successful_deobs st = map (display_name \<circ> fst) (successes (outcomes env self ds st0))"
    by simp
  with some have ne: "successful_deobs st \<noteq> []"
    by simp
  from h some have path: "newest_file_path st = snd (last (successes (outcomes env self ds st0)))"
    by (simp add: last_map)
  have failed: "\<forall>d \<in> set (failures (outcomes env self ds st0)).
                  display_name d \<notin> set (successful_deobs st)"
    if "distinct (map display_name ds)"
    unfolding names
    using failed_name_not_successful [OF outcomes_distinct [OF that]] by blast
  have points: "\<exists>st1. run_deobs env self ds1 st0 = Inr st1
                 \<and> run_deobs env self ds2 st1 = Inr st
                 \<and> newest_file_path st1
                     = (if successes (outcomes env self ds1 st0) = [] then newest_file_path st0
                        else snd (last (successes (outcomes env self ds1 st0))))"
    if split: "ds = ds1 @ ds2" for ds1 ds2
  proof -
    from run split obtain st1 where
      a: "run_deobs env self ds1 st0 = Inr st1" and b: "run_deobs env self ds2 st1 = Inr st"
      by (auto simp: run_deobs_append split: sum.splits)
    from run_deobs_history [OF a]
    have "newest_file_path st1
            = (if successes (outcomes env self ds1 st0) = [] then newest_file_path st0
               else snd (last (successes (outcomes env self ds1 st0))))"
      by (simp add: last_map)
    with a b show ?thesis by blast
  qed
  have step: "\<exists>st2. loop_body env self d st1 = Inr st2
                      \<and> newest_file_path st2 = newest_file_path st1
                      \<and> successful_deobs st2 = successful_deobs st1"
    if "key d \<in> set (cfg_deobfuscators self)
        \<and> deobfuscate env (module_dir self) d (newest_file_path st1) (world st1)
            = (Inr (None, Some err), w')" for d st1 err w'
    using that by (simp add: loop_body_def)
  have advance: "\<exists>st2. loop_body env self d st1 = Inr st2
                      \<and> newest_file_path st2 = p
                      \<and> successful_deobs st2 = successful_deobs st1 @ [display_name d]"
    if "key d \<in> set (cfg_deobfuscators self)
        \<and> deobfuscate env (module_dir self) d (newest_file_path st1) (world st1)
            = (Inr (Some p, e), w')" for d st1 p e w'
    using that by (simp add: loop_body_def)
  have fin: "finish env st
             = (case open_file env (snd (last (successes (outcomes env self ds st0)))) (world st) of
                  Inl e \<Rightarrow> Inl e
                | Inr f \<Rightarrow>
                    Inr (add_child_with_data_file
                           (comma_join (map (display_name \<circ> fst)
                                          (successes (outcomes env self ds st0))))
                           (snd (last (successes (outcomes env self ds st0))))))"
    unfolding path [symmetric] names [symmetric] using ne by (simp add: finish_def)
  show ?thesis
    using ne path names failed points step advance fin by blast
qed

text \<open>
  Unscrambler fails and the other two succeed: the child is the output of de4dot,
  run on the output of the string decryptor, and the trail names these two.
\<close>

theorem candidate_path_and_success_trail_witness:
  "run_deobs (scripted first_fails no_dir) default_plugin AVAILABLE_DEOBFUSCATORS sample_start
     = Inr first_fails_end
   \<and> successes (outcomes (scripted first_fails no_dir) default_plugin AVAILABLE_DEOBFUSCATORS
                  sample_start)
     = [(ConfuserExStaticStringDecryptorDeobfuscator, ''/tmp/x/sample.exeCleaned.exe''),
        (De4dotCexDeobfuscator, ''/tmp/x/sample.exeCleaned.exedeob-cex'')]
   \<and> failures (outcomes (scripted first_fails no_dir) default_plugin AVAILABLE_DEOBFUSCATORS
                  sample_start)
       = [UnscramblerDeobfuscator]
   \<and> newest_file_path first_fails_end = ''/tmp/x/sample.exeCleaned.exedeob-cex''
   \<and> successful_deobs first_fails_end
       = map (display_name \<circ> fst)
           [(ConfuserExStaticStringDecryptorDeobfuscator, ''/tmp/x/sample.exeCleaned.exe''),
            (De4dotCexDeobfuscator, ''/tmp/x/sample.exeCleaned.exedeob-cex'')]
   \<and> display_name UnscramblerDeobfuscator \<notin> set (successful_deobs first_fails_end)
   \<and> finish (scripted first_fails no_dir) first_fails_end
       = Inr (add_child_with_data_file ''ConfuserEx-Static-String-Decryptor,de4dot-cex''
                ''/tmp/x/sample.exeCleaned.exedeob-cex'')"
proof -
  let ?env = "scripted first_fails no_dir"
  have run: "run_deobs ?env default_plugin AVAILABLE_DEOBFUSCATORS sample_start
               = Inr first_fails_end"
    by code_simp
  have init: "successful_deobs sample_start = []"
    by code_simp
  have succ: "successes (outcomes ?env default_plugin AVAILABLE_DEOBFUSCATORS sample_start)
     = [(ConfuserExStaticStringDecryptorDeobfuscator, ''/tmp/x/sample.exeCleaned.exe''),
        (De4dotCexDeobfuscator, ''/tmp/x/sample.exeCleaned.exedeob-cex'')]"
    by code_simp
  have some: "successes (outcomes ?env default_plugin AVAILABLE_DEOBFUSCATORS sample_start) \<noteq> []"
    by (simp add: succ)
  have dist: "distinct (map display_name AVAILABLE_DEOBFUSCATORS)"
    by code_simp
  have fail: "failures (outcomes ?env default_plugin AVAILABLE_DEOBFUSCATORS sample_start)
       = [UnscramblerDeobfuscator]"
    by code_simp
  have joined: "comma_join (map (display_name \<circ> fst)
                   [(ConfuserExStaticStringDecryptorDeobfuscator, ''/tmp/x/sample.exeCleaned.exe''),
                    (De4dotCexDeobfuscator, ''/tmp/x/sample.exeCleaned.exedeob-cex'')])
                  = ''ConfuserEx-Static-String-Decryptor,de4dot-cex''"
    by code_simp
  have opened: "open_file ?env ''/tmp/x/sample.exeCleaned.exedeob-cex'' (world first_fails_end)
                  = Inr ()"
    by code_simp
  from candidate_path_and_success_trail [OF run init some] dist
  have "newest_file_path first_fails_end
          = snd (last (successes (outcomes ?env default_plugin AVAILABLE_DEOBFUSCATORS
                                    sample_start)))"
    and "successful_deobs first_fails_end
          = map (display_name \<circ> fst)
              (successes (outcomes ?env default_plugin AVAILABLE_DEOBFUSCATORS sample_start))"
    and "\<forall>d \<in> set (failures (outcomes ?env default_plugin AVAILABLE_DEOBFUSCATORS sample_start)).
           display_name d \<notin> set (successful_deobs first_fails_end)"
    and "finish ?env first_fails_end
           = (case open_file ?env
                     (snd (last (successes (outcomes ?env default_plugin AVAILABLE_DEOBFUSCATORS
                                              sample_start)))) (world first_fails_end) of
                Inl e \<Rightarrow> Inl e
              | Inr f \<Rightarrow>
                  Inr (add_child_with_data_file
                         (comma_join (map (display_name \<circ> fst)
                            (successes (outcomes ?env default_plugin AVAILABLE_DEOBFUSCATORS
                                          sample_start))))
                         (snd (last (successes (outcomes ?env default_plugin
                                                  AVAILABLE_DEOBFUSCATORS sample_start))))))"
    by blast+
  with run succ fail joined opened show ?thesis
    by simp
qed

section \<open>The text that is classified\<close>













end
